theory Spec2Isabelle
  imports Complex_Main "HOL-Library.AList"
begin

section \<open>Data model\<close>

text \<open>
  The reward and ledger engine of the platform: the account store (Mongoose model
  \<open>User\<close>), the ledger (model \<open>CoinTransaction\<close>), the static catalogs and the
  operations of \<open>services/achievements.js\<close>, \<open>services/featureProgress.js\<close>,
  \<open>routes/coins.js\<close> and the direct-message router.

  Numbers. A JavaScript \<open>Number\<close> that passed \<open>Number.isFinite\<close> is modelled as a
  rational with exact arithmetic; the three non-finite values are constructors of their
  own, so that every \<open>Number.isFinite\<close> test of the source is a branch of the model.
  A request value is modelled after its conversion by \<open>Number(...)\<close>.
\<close>

datatype jsnum = Fin rat | NaN | PosInf | NegInf

type_synonym uid = nat
type_synonym time = int

text \<open>
  Property reads. \<open>obj[key]\<close> on an object literal finds the literal's own entries and,
  for every other key, the members every object inherits from \<open>Object.prototype\<close>; these
  are functions or objects, hence truthy, and none of them has a field \<open>code\<close>,
  \<open>title\<close> or \<open>coinsReward\<close>.
\<close>

datatype 'a js_prop = Own 'a | Inherited | Undefined

definition objectPrototypeKeys :: "string list" where
  "objectPrototypeKeys =
     [''constructor'', ''__proto__'', ''hasOwnProperty'', ''isPrototypeOf'',
      ''propertyIsEnumerable'', ''toLocaleString'', ''toString'', ''valueOf'',
      ''__defineGetter__'', ''__defineSetter__'', ''__lookupGetter__'', ''__lookupSetter__'']"

definition js_get :: "(string \<rightharpoonup> 'a) \<Rightarrow> string \<Rightarrow> 'a js_prop" where
  "js_get obj key =
     (case obj key of
        Some v \<Rightarrow> Own v
      | None \<Rightarrow> if key \<in> set objectPrototypeKeys then Inherited else Undefined)"

text \<open>An entry of the array \<open>achievements\<close>; a field that was \<open>undefined\<close> when pushed is absent.\<close>

record achievement =
  a_code :: "string option"
  a_title :: "string option"
  earnedAt :: time

record user =
  username :: string
  role :: string
  level :: int
  coins :: rat
  isBannedFromChat :: bool
  isBannedFromCoins :: bool
  achievements :: "achievement list"
  awardedAchievements :: "string list"
  achievementPoints :: rat
  stats :: "string \<rightharpoonup> rat"
  unlocks :: "string \<rightharpoonup> bool"

datatype tx_type =
  Transfer | Achievement_reward | Level_up | Feature_purchase | Admin_adjust

record tx =
  tx_type :: tx_type
  fromUserId :: "uid option"
  fromUsername :: "string option"
  toUserId :: "uid option"
  toUsername :: "string option"
  amount :: rat
  description :: string
  createdAt :: time

text \<open>
  The store: the collection of users in its natural order, each document under its
  \<open>_id\<close>, and the ledger in insertion order.
\<close>

record state =
  users :: "(uid \<times> user) list"
  ledger :: "tx list"

section \<open>Store primitives\<close>

definition User_findById :: "uid \<Rightarrow> state \<Rightarrow> user option" where
  "User_findById i s = map_of (users s) i"

definition User_findOne_username :: "string \<Rightarrow> state \<Rightarrow> (uid \<times> user) option" where
  "User_findOne_username name s = find (\<lambda>(i, u). username u = name) (users s)"

definition save :: "uid \<Rightarrow> user \<Rightarrow> state \<Rightarrow> state" where
  "save i u s = s\<lparr>users := AList.update i u (users s)\<rparr>"

text \<open>
  \<open>findOneAndUpdate(filter, update, {new: true})\<close>: one indivisible step that updates
  the document with the given \<open>_id\<close> if it satisfies the filter and returns the updated
  document, and otherwise returns null and changes nothing.
\<close>

definition User_findOneAndUpdate ::
  "uid \<Rightarrow> (user \<Rightarrow> bool) \<Rightarrow> (user \<Rightarrow> user) \<Rightarrow> state \<Rightarrow> user option \<times> state" where
  "User_findOneAndUpdate i flt upd s =
     (case map_of (users s) i of
        None \<Rightarrow> (None, s)
      | Some u \<Rightarrow> if flt u then (Some (upd u), save i (upd u) s) else (None, s))"

definition CoinTransaction_create :: "time \<Rightarrow> tx \<Rightarrow> state \<Rightarrow> state" where
  "CoinTransaction_create now t s = s\<lparr>ledger := ledger s @ [t\<lparr>createdAt := now\<rparr>]\<rparr>"

section \<open>Idempotent awarder (services/achievements.js)\<close>

record achievement_def =
  code :: string
  title :: string
  coinsReward :: rat

definition ACHIEVEMENTS_table :: "string \<rightharpoonup> achievement_def" where
  "ACHIEVEMENTS_table =
     [''FIRST_LOGIN'' \<mapsto> \<lparr>code = ''FIRST_LOGIN'', title = ''First Login'', coinsReward = 10\<rparr>,
      ''LEVEL2_UNLOCKED'' \<mapsto>
         \<lparr>code = ''LEVEL2_UNLOCKED'', title = ''Unlocked Level 2'', coinsReward = 50\<rparr>,
      ''LEVEL3_UNLOCKED'' \<mapsto>
         \<lparr>code = ''LEVEL3_UNLOCKED'', title = ''Unlocked Level 3'', coinsReward = 75\<rparr>,
      ''FIRST_BUG_REPORT'' \<mapsto>
         \<lparr>code = ''FIRST_BUG_REPORT'', title = ''First Bug Report'', coinsReward = 25\<rparr>]"

definition ACHIEVEMENTS :: "string \<Rightarrow> achievement_def js_prop" where
  "ACHIEVEMENTS c = js_get ACHIEVEMENTS_table c"

text \<open>The fields \<open>def.code\<close>, \<open>def.title\<close> and \<open>Number(def.coinsReward) || 0\<close> of a truthy lookup.\<close>

fun def_code :: "achievement_def js_prop \<Rightarrow> string option" where
  "def_code (Own d) = Some (code d)"
| "def_code _ = None"

fun def_title :: "achievement_def js_prop \<Rightarrow> string option" where
  "def_title (Own d) = Some (title d)"
| "def_title _ = None"

fun def_reward :: "achievement_def js_prop \<Rightarrow> rat" where
  "def_reward (Own d) = coinsReward d"
| "def_reward _ = 0"

text \<open>The filter \<open>"achievements.code": {$ne: c}\<close> holds when no entry of the array has code \<open>c\<close>.\<close>

definition has_code :: "string option \<Rightarrow> user \<Rightarrow> bool" where
  "has_code c u = (c \<in> set (map a_code (achievements u)))"

definition push_achievement :: "achievement \<Rightarrow> user \<Rightarrow> user" where
  "push_achievement e u = u\<lparr>achievements := achievements u @ [e]\<rparr>"

definition reward_tx :: "uid \<Rightarrow> user \<Rightarrow> rat \<Rightarrow> string option \<Rightarrow> tx" where
  "reward_tx i u reward ttl =
     \<lparr>tx_type = Achievement_reward, fromUserId = None, fromUsername = None,
      toUserId = Some i, toUsername = Some (username u), amount = reward,
      description = ''Achievement: '' @ (case ttl of Some t \<Rightarrow> t | None \<Rightarrow> ''undefined''),
      createdAt = 0\<rparr>"

text \<open>
  \<open>awardAchievement\<close>: the guard on the catalog lookup, the conditional update that
  grants the code together with the coins, the ledger entry, the conditional update that
  grants the code alone, and the final read. For an inherited member the three fields of
  \<open>def\<close> are undefined; the model carries the undefined code as \<open>None\<close> through the same
  two updates.
\<close>

definition awardAchievement :: "time \<Rightarrow> uid \<Rightarrow> string \<Rightarrow> state \<Rightarrow> user option \<times> state" where
  "awardAchievement now userId c s =
     (case ACHIEVEMENTS c of
        Undefined \<Rightarrow> (None, s)
      | d \<Rightarrow>
          (let reward = def_reward d;
               entry = \<lparr>a_code = def_code d, a_title = def_title d, earnedAt = now\<rparr>
           in case User_findOneAndUpdate userId
                     (\<lambda>u. \<not> has_code (def_code d) u \<and> \<not> isBannedFromCoins u)
                     (\<lambda>u. push_achievement entry
                             (if reward > 0 then u\<lparr>coins := coins u + reward\<rparr> else u)) s of
                (Some u1, s1) \<Rightarrow>
                  (Some u1,
                   if reward > 0
                   then CoinTransaction_create now (reward_tx userId u1 reward (def_title d)) s1
                   else s1)
              | (None, s1) \<Rightarrow>
                  (case User_findOneAndUpdate userId
                          (\<lambda>u. \<not> has_code (def_code d) u) (push_achievement entry) s1 of
                     (Some u2, s2) \<Rightarrow> (Some u2, s2)
                   | (None, s2) \<Rightarrow> (User_findById userId s2, s2))))"

section \<open>Stat and milestone tracker (services/featureProgress.js)\<close>

text \<open>\<open>String.prototype.trim\<close> on strings of ASCII characters.\<close>

definition is_space :: "char \<Rightarrow> bool" where
  "is_space ch = (ch \<in> set [CHR '' '', CHR 0x09, CHR 0x0A, CHR 0x0B, CHR 0x0C, CHR 0x0D])"

definition trim :: "string \<Rightarrow> string" where
  "trim str = rev (dropWhile is_space (rev (dropWhile is_space str)))"

text \<open>\<open>$addToSet\<close> appends a value the array does not hold yet.\<close>

definition addToSet :: "'a \<Rightarrow> 'a list \<Rightarrow> 'a list" where
  "addToSet x xs = (if x \<in> set xs then xs else xs @ [x])"

text \<open>
  \<open>awardApOnce\<close>. The amount is the finite number the caller passes (the only caller skips
  values that are not finite). The result is the pair of \<open>ok\<close> and \<open>awarded\<close>.
\<close>

definition awardApOnce :: "uid \<Rightarrow> string \<Rightarrow> rat \<Rightarrow> state \<Rightarrow> (bool \<times> bool) \<times> state" where
  "awardApOnce userId c apAmount s =
     (let cleanCode = trim c; ap = apAmount
      in if cleanCode = [] \<or> ap \<le> 0 then ((False, False), s)
         else
           (case User_findOneAndUpdate userId
                   (\<lambda>u. cleanCode \<notin> set (awardedAchievements u))
                   (\<lambda>u. u\<lparr>awardedAchievements := addToSet cleanCode (awardedAchievements u),
                          achievementPoints := achievementPoints u + ap\<rparr>) s of
              (Some _, s1) \<Rightarrow> ((True, True), s1)
            | (None, s1) \<Rightarrow> ((True, False), s1)))"

text \<open>
  An entry of a milestone list of \<open>config/features\<close>, with \<open>count\<close> and \<open>ap\<close> after
  \<open>Number(...)\<close>. The table \<open>FEATURE_MILESTONES\<close> itself is a parameter: for a feature key
  and a stat key it gives the configured list, empty when nothing is configured.
\<close>

record milestone =
  m_count :: jsnum
  m_ap :: jsnum
  m_code :: string

type_synonym milestones = "string \<Rightarrow> string \<Rightarrow> milestone list"

fun award_milestones :: "uid \<Rightarrow> rat \<Rightarrow> milestone list \<Rightarrow> state \<Rightarrow> state" where
  "award_milestones userId newValue [] s = s"
| "award_milestones userId newValue (m # ms) s =
     (case (m_count m, m_ap m) of
        (Fin cnt, Fin ap) \<Rightarrow>
          if trim (m_code m) = [] then award_milestones userId newValue ms s
          else if newValue \<ge> cnt
          then award_milestones userId newValue ms
                 (snd (awardApOnce userId (trim (m_code m)) ap s))
          else award_milestones userId newValue ms s
      | _ \<Rightarrow> award_milestones userId newValue ms s)"

text \<open>
  \<open>$inc\<close> on \<open>stats.<key>\<close>, the key taken as one field name of \<open>stats\<close>; a counter that
  does not exist yet starts from 0.
\<close>

definition inc_stat :: "string \<Rightarrow> rat \<Rightarrow> user \<Rightarrow> user" where
  "inc_stat sKey d u =
     u\<lparr>stats := (stats u)(sKey \<mapsto> (case stats u sKey of None \<Rightarrow> 0 | Some v \<Rightarrow> v) + d)\<rparr>"

definition recordFeatureAction ::
  "milestones \<Rightarrow> uid \<Rightarrow> string \<Rightarrow> string \<Rightarrow> jsnum \<Rightarrow> state \<Rightarrow> (string \<times> rat) option \<times> state" where
  "recordFeatureAction FEATURE_MILESTONES userId featureKey statKey delta s =
     (case delta of
        Fin d \<Rightarrow>
          if d = 0 then (None, s)
          else
            (let fKey = trim featureKey; sKey = trim statKey
             in if fKey = [] \<or> sKey = [] then (None, s)
                else
                  (case User_findOneAndUpdate userId (\<lambda>u. True) (inc_stat sKey d) s of
                     (usr, s1) \<Rightarrow>
                       (let newValue =
                              (case usr of
                                 None \<Rightarrow> 0
                               | Some u \<Rightarrow> (case stats u sKey of None \<Rightarrow> 0 | Some v \<Rightarrow> v))
                        in (Some (sKey, newValue),
                            award_milestones userId newValue (FEATURE_MILESTONES fKey sKey) s1))))
      | _ \<Rightarrow> (None, s))"

section \<open>Rate window evaluator and the coin routes (routes/coins.js)\<close>

datatype limit_result = LimitOk | LimitExceeded string

definition in_window :: "uid \<Rightarrow> time \<Rightarrow> tx \<Rightarrow> bool" where
  "in_window userId since t =
     (tx_type t = Transfer \<and> fromUserId t = Some userId \<and> createdAt t \<ge> since)"

definition dailyLimitsOK :: "uid \<Rightarrow> rat \<Rightarrow> rat \<Rightarrow> time \<Rightarrow> state \<Rightarrow> limit_result" where
  "dailyLimitsOK userId maxTransfers maxCoins now s =
     (let since = now - 24 * 60 * 60 * 1000;
          transfersCount = length (filter (in_window userId since) (ledger s))
      in if of_nat transfersCount \<ge> maxTransfers
         then LimitExceeded ''Daily transfer count limit reached''
         else
           (let txs = filter (in_window userId since) (ledger s);
                total = sum_list (map amount txs)
            in if total \<ge> maxCoins then LimitExceeded ''Daily coin sending limit reached''
               else LimitOk))"

text \<open>
  A handler answers with an error (status and message) or with its payload. The rate
  limiters of \<open>services/security.js\<close>, the audit log and the chat-message collection are
  outside the economic state and are left out; one clock reading \<open>now\<close> serves a whole
  request.
\<close>

type_synonym 'a response = "(nat \<times> string) + 'a"

definition loadUser :: "uid \<Rightarrow> state \<Rightarrow> user response" where
  "loadUser i s =
     (case User_findById i s of None \<Rightarrow> Inl (401, ''User not found'') | Some u \<Rightarrow> Inr u)"

definition transfer_tx :: "uid \<Rightarrow> user \<Rightarrow> uid \<Rightarrow> user \<Rightarrow> rat \<Rightarrow> string \<Rightarrow> tx" where
  "transfer_tx i me tid target amt descr =
     \<lparr>tx_type = Transfer, fromUserId = Some i, fromUsername = Some (username me),
      toUserId = Some tid, toUsername = Some (username target), amount = amt,
      description = descr, createdAt = 0\<rparr>"

text \<open>
  The debit, the credit and the ledger entry shared, line for line, by \<open>POST /transfer\<close>
  and by the coin part of \<open>POST /send\<close>: both documents are saved, the receiver's without
  a change when it is coin-banned.
\<close>

definition move_coins ::
  "uid \<Rightarrow> user \<Rightarrow> uid \<Rightarrow> user \<Rightarrow> rat \<Rightarrow> string \<Rightarrow> time \<Rightarrow> state \<Rightarrow> (user \<times> user) \<times> state" where
  "move_coins i me tid target amt descr now s =
     (let me' = me\<lparr>coins := coins me - amt\<rparr>;
          s1 = save i me' s;
          target' = (if \<not> isBannedFromCoins target then target\<lparr>coins := coins target + amt\<rparr>
                     else target);
          s2 = save tid target' s1;
          s3 = CoinTransaction_create now (transfer_tx i me' tid target' amt descr) s2
      in ((me', target'), s3))"

definition post_transfer ::
  "uid \<Rightarrow> string \<Rightarrow> jsnum \<Rightarrow> time \<Rightarrow> state \<Rightarrow> (rat \<times> rat) response \<times> state" where
  "post_transfer i toName amnt now s =
     (case loadUser i s of
        Inl e \<Rightarrow> (Inl e, s)
      | Inr me \<Rightarrow>
          if isBannedFromCoins me then (Inl (403, ''You are banned from using coins''), s)
          else
            (case amnt of
               Fin amt \<Rightarrow>
                 if toName = [] \<or> amt \<le> 0 then (Inl (400, ''Invalid request''), s)
                 else
                   (case User_findOne_username (trim toName) s of
                      None \<Rightarrow> (Inl (404, ''Target user not found''), s)
                    | Some (tid, target) \<Rightarrow>
                        if username target = username me
                        then (Inl (400, ''Cannot send coins to yourself''), s)
                        else
                          (case (if role me \<noteq> ''admin'' then dailyLimitsOK i 20 2000 now s
                                 else LimitOk) of
                             LimitExceeded reason \<Rightarrow> (Inl (429, reason), s)
                           | LimitOk \<Rightarrow>
                               if coins me < amt then (Inl (400, ''Not enough coins''), s)
                               else
                                 (case move_coins i me tid target amt ''User transfer'' now s of
                                    ((me', target'), s') \<Rightarrow>
                                      (Inr (coins me', coins target'), s'))))
             | _ \<Rightarrow> (Inl (400, ''Invalid request''), s)))"

text \<open>Decimal text of an integer, as a template literal prints an integral \<open>Number\<close>.\<close>

fun show_nat :: "nat \<Rightarrow> string" where
  "show_nat n =
     (if n < 10 then [char_of (48 + n)] else show_nat (n div 10) @ [char_of (48 + n mod 10)])"

declare show_nat.simps [simp del]

definition show_int :: "int \<Rightarrow> string" where
  "show_int k = (if k < 0 then ''-'' @ show_nat (nat (- k)) else show_nat (nat k))"

definition isInteger :: "rat \<Rightarrow> bool" where
  "isInteger x = (of_int \<lfloor>x\<rfloor> = x)"

definition level_up_tx :: "uid \<Rightarrow> user \<Rightarrow> rat \<Rightarrow> int \<Rightarrow> int \<Rightarrow> tx" where
  "level_up_tx i me cost oldLevel lvl =
     \<lparr>tx_type = Level_up, fromUserId = Some i, fromUsername = Some (username me),
      toUserId = None, toUsername = None, amount = cost,
      description = ''Level up '' @ show_int oldLevel @ '' -> '' @ show_int lvl,
      createdAt = 0\<rparr>"

definition post_level_up ::
  "uid \<Rightarrow> jsnum \<Rightarrow> time \<Rightarrow> state \<Rightarrow> (int \<times> rat) response \<times> state" where
  "post_level_up i targetLevel now s =
     (case loadUser i s of
        Inl e \<Rightarrow> (Inl e, s)
      | Inr me \<Rightarrow>
          (case targetLevel of
             Fin lvl \<Rightarrow>
               if \<not> isInteger lvl \<or> lvl \<le> of_int (level me) \<or> lvl > 10
               then (Inl (400, ''Invalid target level''), s)
               else if isBannedFromCoins me
               then (Inl (403, ''You are banned from using coins''), s)
               else
                 (let diff = lvl - of_int (level me);
                      cost = diff * 100
                  in if role me \<noteq> ''admin'' \<and> coins me < cost
                     then (Inl (400, ''Not enough coins''), s)
                     else
                       (let me1 = (if role me \<noteq> ''admin'' then me\<lparr>coins := coins me - cost\<rparr>
                                   else me);
                            oldLevel = level me1;
                            me2 = me1\<lparr>level := \<lfloor>lvl\<rfloor>\<rparr>;
                            s1 = save i me2 s;
                            s2 = CoinTransaction_create now
                                   (level_up_tx i me2 cost oldLevel \<lfloor>lvl\<rfloor>) s1;
                            s3 = (if lvl \<ge> 2
                                  then snd (awardAchievement now i ''LEVEL2_UNLOCKED'' s2)
                                  else s2);
                            s4 = (if lvl \<ge> 3
                                  then snd (awardAchievement now i ''LEVEL3_UNLOCKED'' s3)
                                  else s3)
                        in (Inr (level me2, coins me2), s4)))
           | _ \<Rightarrow> (Inl (400, ''Invalid target level''), s)))"

definition FEATURE_PRICES_table :: "string \<rightharpoonup> rat" where
  "FEATURE_PRICES_table =
     [''chat'' \<mapsto> 100, ''groupChat'' \<mapsto> 200, ''createGroup'' \<mapsto> 300, ''imageUpload'' \<mapsto> 150]"

definition FEATURE_PRICES :: "string \<Rightarrow> rat js_prop" where
  "FEATURE_PRICES key = js_get FEATURE_PRICES_table key"

text \<open>Truthiness of \<open>unlocks[key]\<close>: an own flag counts as it is, an inherited member is truthy.\<close>

definition unlocked :: "user \<Rightarrow> string \<Rightarrow> bool" where
  "unlocked u key =
     (case js_get (unlocks u) key of Own b \<Rightarrow> b | Inherited \<Rightarrow> True | Undefined \<Rightarrow> False)"

definition feature_tx :: "uid \<Rightarrow> user \<Rightarrow> rat \<Rightarrow> string \<Rightarrow> tx" where
  "feature_tx i me cost key =
     \<lparr>tx_type = Feature_purchase, fromUserId = Some i, fromUsername = Some (username me),
      toUserId = None, toUsername = None, amount = cost,
      description = ''Feature purchase: '' @ key, createdAt = 0\<rparr>"

text \<open>
  \<open>POST /buy-feature\<close>. A key that is no own entry of the price table but an inherited
  member passes the first test; it then fails the test "already unlocked", since the
  same member is found on \<open>unlocks\<close>. The last branch is what remains for such a key when
  \<open>unlocks\<close> holds an own falsy entry under that very name: the price is not a number,
  the balance becomes not-a-number, the save is refused and the handler answers 500
  with nothing stored.
\<close>

definition post_buy_feature ::
  "uid \<Rightarrow> string \<Rightarrow> time \<Rightarrow> state \<Rightarrow> (rat \<times> (string \<rightharpoonup> bool)) response \<times> state" where
  "post_buy_feature i key now s =
     (case loadUser i s of
        Inl e \<Rightarrow> (Inl e, s)
      | Inr me \<Rightarrow>
          (case FEATURE_PRICES key of
             Undefined \<Rightarrow> (Inl (400, ''Invalid feature''), s)
           | price \<Rightarrow>
               if isBannedFromCoins me then (Inl (403, ''You are banned from using coins''), s)
               else if unlocked me key then (Inl (400, ''Feature already unlocked''), s)
               else
                 (case price of
                    Own cost \<Rightarrow>
                      if coins me < cost then (Inl (400, ''Not enough coins''), s)
                      else
                        (let me' = me\<lparr>coins := coins me - cost,
                                       unlocks := (unlocks me)(key \<mapsto> True)\<rparr>;
                             s1 = save i me' s;
                             s2 = CoinTransaction_create now (feature_tx i me' cost key) s1
                         in (Inr (coins me', unlocks me'), s2))
                  | _ \<Rightarrow> (Inl (500, ''Server error''), s))))"

text \<open>
  \<open>POST /adjust\<close>. \<open>numToString\<close> stands for the conversion of a \<open>Number\<close> to text in a
  template literal; \<open>em_dash\<close> is the separator before the reason, a dash between two
  blanks, in UTF-8.
\<close>

definition em_dash :: string where
  "em_dash = [CHR '' '', CHR 0xE2, CHR 0x80, CHR 0x94, CHR '' '']"

definition adjust_description :: "(rat \<Rightarrow> string) \<Rightarrow> rat \<Rightarrow> string \<Rightarrow> string" where
  "adjust_description numToString d reason =
     ''Admin adjust ('' @ (if d \<ge> 0 then ''+'' else []) @ numToString d @ '')'' @
     (if reason \<noteq> [] then em_dash @ take 200 reason else [])"

definition adjust_tx ::
  "(rat \<Rightarrow> string) \<Rightarrow> uid \<Rightarrow> user \<Rightarrow> uid \<Rightarrow> user \<Rightarrow> rat \<Rightarrow> string \<Rightarrow> tx" where
  "adjust_tx numToString i me tid target d reason =
     \<lparr>tx_type = Admin_adjust, fromUserId = Some i, fromUsername = Some (username me),
      toUserId = Some tid, toUsername = Some (username target), amount = \<bar>d\<bar>,
      description = adjust_description numToString d reason, createdAt = 0\<rparr>"

definition post_adjust ::
  "(rat \<Rightarrow> string) \<Rightarrow> uid \<Rightarrow> string \<Rightarrow> jsnum \<Rightarrow> string \<Rightarrow> time \<Rightarrow> state \<Rightarrow>
     (string \<times> rat) response \<times> state" where
  "post_adjust numToString i name delta reason now s =
     (case loadUser i s of
        Inl e \<Rightarrow> (Inl e, s)
      | Inr me \<Rightarrow>
          if role me \<noteq> ''admin'' then (Inl (403, ''Admin only''), s)
          else
            (case delta of
               Fin d \<Rightarrow>
                 if name = [] then (Inl (400, ''Invalid request''), s)
                 else
                   (case User_findOne_username (trim name) s of
                      None \<Rightarrow> (Inl (404, ''User not found''), s)
                    | Some (tid, target) \<Rightarrow>
                        (let target' = target\<lparr>coins := max 0 (coins target + d)\<rparr>;
                             s1 = save tid target' s;
                             s2 = CoinTransaction_create now
                                    (adjust_tx numToString i me tid target' d reason) s1
                         in (Inr (username target', coins target'), s2)))
             | _ \<Rightarrow> (Inl (400, ''Invalid request''), s)))"

section \<open>Coin transfer inside a direct message (POST /send of the DM router)\<close>

text \<open>\<open>Number(coinsToSend) || 0\<close>: not-a-number and zero become zero, an infinity stays.\<close>

fun num_or_zero :: "jsnum \<Rightarrow> jsnum" where
  "num_or_zero NaN = Fin 0"
| "num_or_zero x = x"

text \<open>
  The block \<open>if (coins > 0) { ... }\<close>: it returns the sender's document as the handler
  holds it afterwards. Positive infinity is greater than zero and greater than every
  balance.
\<close>

definition dm_coins ::
  "uid \<Rightarrow> user \<Rightarrow> uid \<Rightarrow> user \<Rightarrow> jsnum \<Rightarrow> time \<Rightarrow> state \<Rightarrow> (user \<times> state) response" where
  "dm_coins i me tid target cns now s =
     (case cns of
        Fin c \<Rightarrow>
          if c > 0
          then
            (if isBannedFromCoins me then Inl (403, ''You are banned from coins'')
             else if coins me < c then Inl (400, ''Not enough coins'')
             else
               (case move_coins i me tid target c ''DM transfer'' now s of
                  ((me', target'), s') \<Rightarrow> Inr (me', s')))
          else Inr (me, s)
      | PosInf \<Rightarrow>
          if isBannedFromCoins me then Inl (403, ''You are banned from coins'')
          else Inl (400, ''Not enough coins'')
      | _ \<Rightarrow> Inr (me, s))"

definition post_dm_send ::
  "milestones \<Rightarrow> uid \<Rightarrow> string \<Rightarrow> string \<Rightarrow> jsnum \<Rightarrow> time \<Rightarrow> state \<Rightarrow> rat response \<times> state" where
  "post_dm_send FEATURE_MILESTONES i toName imageUrl coinsToSend now s =
     (case loadUser i s of
        Inl e \<Rightarrow> (Inl e, s)
      | Inr me \<Rightarrow>
          (let hasImage = (trim imageUrl \<noteq> [])
           in if \<not> unlocked me ''chat''
              then (Inl (403, ''Chat feature is locked. Unlock it in the Feature Shop.''), s)
              else if hasImage \<and> \<not> unlocked me ''imageUpload''
              then (Inl (403,
                      ''Image Upload feature is locked. Unlock it in the Feature Shop.''), s)
              else if isBannedFromChat me then (Inl (403, ''You are banned from chat''), s)
              else if toName = [] then (Inl (400, ''Missing toUsername''), s)
              else
                (case User_findOne_username (trim toName) s of
                   None \<Rightarrow> (Inl (404, ''Target user not found''), s)
                 | Some (tid, target) \<Rightarrow>
                     if username target = username me
                     then (Inl (400, ''Cannot chat with yourself here''), s)
                     else if \<not> unlocked target ''chat''
                     then (Inl (403, ''The other user has not unlocked chat yet.''), s)
                     else if hasImage \<and> level me < 2
                     then (Inl (403, ''Level 2 required to send images''), s)
                     else
                       (case dm_coins i me tid target (num_or_zero coinsToSend) now s of
                          Inl e \<Rightarrow> (Inl e, s)
                        | Inr (me', s1) \<Rightarrow>
                            (let s2 = snd (recordFeatureAction FEATURE_MILESTONES i
                                             ''chat'' ''dmMessagesSent'' (Fin 1) s1);
                                 s3 = (if hasImage
                                       then snd (recordFeatureAction FEATURE_MILESTONES i
                                                   ''imageUpload'' ''imagesSent'' (Fin 1) s2)
                                       else s2)
                             in (Inr (coins me'), s3))))))"

section \<open>Sequences of operations\<close>

datatype op =
  Op_transfer uid string jsnum
| Op_dm_send uid string string jsnum
| Op_buy_feature uid string
| Op_level_up uid jsnum
| Op_adjust uid string jsnum string
| Op_award uid string

fun apply_op :: "milestones \<Rightarrow> (rat \<Rightarrow> string) \<Rightarrow> time \<Rightarrow> op \<Rightarrow> state \<Rightarrow> state" where
  "apply_op fm ns now (Op_transfer i toName amnt) s = snd (post_transfer i toName amnt now s)"
| "apply_op fm ns now (Op_dm_send i toName img cns) s =
     snd (post_dm_send fm i toName img cns now s)"
| "apply_op fm ns now (Op_buy_feature i key) s = snd (post_buy_feature i key now s)"
| "apply_op fm ns now (Op_level_up i lvl) s = snd (post_level_up i lvl now s)"
| "apply_op fm ns now (Op_adjust i name delta reason) s =
     snd (post_adjust ns i name delta reason now s)"
| "apply_op fm ns now (Op_award i c) s = snd (awardAchievement now i c s)"

text \<open>Operations applied one after the other, each at its own clock reading.\<close>

fun run :: "milestones \<Rightarrow> (rat \<Rightarrow> string) \<Rightarrow> (time \<times> op) list \<Rightarrow> state \<Rightarrow> state" where
  "run fm ns [] s = s"
| "run fm ns ((now, x) # ops) s = run fm ns ops (apply_op fm ns now x s)"

definition balances_nonneg :: "state \<Rightarrow> bool" where
  "balances_nonneg s = list_all (\<lambda>(i, u). 0 \<le> coins u) (users s)"



section \<open>Document-level view of the tracker\<close>

text \<open>
  What one call of \<open>awardApOnce\<close>, and one round of the milestone loop, do to the account
  document they find; the lemmas below show that the store operations act on the stored
  document exactly so.
\<close>

definition ap_once :: "string \<Rightarrow> rat \<Rightarrow> user \<Rightarrow> user" where
  "ap_once c ap u =
     (if trim c = [] \<or> ap \<le> 0 \<or> trim c \<in> set (awardedAchievements u) then u
      else u\<lparr>awardedAchievements := awardedAchievements u @ [trim c],
             achievementPoints := achievementPoints u + ap\<rparr>)"

definition milestone_step :: "rat \<Rightarrow> milestone \<Rightarrow> user \<Rightarrow> user" where
  "milestone_step v m u =
     (case (m_count m, m_ap m) of
        (Fin t, Fin a) \<Rightarrow> if trim (m_code m) \<noteq> [] \<and> t \<le> v then ap_once (m_code m) a u else u
      | _ \<Rightarrow> u)"

definition stat_value :: "user \<Rightarrow> string \<Rightarrow> rat" where
  "stat_value u k = (case stats u k of None \<Rightarrow> 0 | Some x \<Rightarrow> x)"








section \<open>Example accounts and stores\<close>

definition alice :: user where
  "alice = \<lparr>username = ''alice'', role = ''user'', level = 1, coins = 500,
     isBannedFromChat = False, isBannedFromCoins = False, achievements = [],
     awardedAchievements = [], achievementPoints = 0, stats = Map.empty, unlocks = Map.empty\<rparr>"

definition store0 :: state where
  "store0 = \<lparr>users = [(1, alice)], ledger = []\<rparr>"

definition bob :: user where
  "bob = \<lparr>username = ''bob'', role = ''user'', level = 1, coins = 40,
     isBannedFromChat = False, isBannedFromCoins = True, achievements = [],
     awardedAchievements = [], achievementPoints = 0, stats = Map.empty, unlocks = Map.empty\<rparr>"

definition store1 :: state where
  "store1 = \<lparr>users = [(1, alice), (2, bob)], ledger = []\<rparr>"

definition granted_entry :: "string \<Rightarrow> achievement_def \<Rightarrow> time \<Rightarrow> achievement" where
  "granted_entry c d now = \<lparr>a_code = Some c, a_title = Some (title d), earnedAt = now\<rparr>"

definition alice_poor :: user where
  "alice_poor = alice\<lparr>coins := 50\<rparr>"

definition store_poor :: state where
  "store_poor = \<lparr>users = [(1, alice_poor)], ledger = []\<rparr>"

definition root :: user where
  "root = \<lparr>username = ''root'', role = ''admin'', level = 10, coins = 0,
     isBannedFromChat = False, isBannedFromCoins = False, achievements = [],
     awardedAchievements = [], achievementPoints = 0, stats = Map.empty, unlocks = Map.empty\<rparr>"

definition store2 :: state where
  "store2 = \<lparr>users = [(1, alice), (2, bob), (3, root)], ledger = []\<rparr>"

definition demo_milestones :: milestones where
  "demo_milestones f k =
     (if f = ''chat'' \<and> k = ''dmMessagesSent''
      then [\<lparr>m_count = Fin 10, m_ap = Fin 5, m_code = ''CHAT_DM_10''\<rparr>,
            \<lparr>m_count = Fin 20, m_ap = Fin 8, m_code = ''CHAT_DM_20''\<rparr>]
      else [])"

definition store_chat :: state where
  "store_chat =
     \<lparr>users = [(1, alice\<lparr>unlocks := [''chat'' \<mapsto> True]\<rparr>),
               (2, bob\<lparr>unlocks := [''chat'' \<mapsto> True]\<rparr>)],
      ledger = []\<rparr>"

definition old_transfer :: tx where
  "old_transfer =
     \<lparr>tx_type = Transfer, fromUserId = Some 1, fromUsername = Some ''alice'',
      toUserId = Some 2, toUsername = Some ''bob'', amount = 1,
      description = ''User transfer'', createdAt = 100\<rparr>"

definition store_busy :: state where
  "store_busy = store_chat\<lparr>ledger := replicate 20 old_transfer\<rparr>"

definition demo_ops :: "(time \<times> op) list" where
  "demo_ops =
     [(10, Op_transfer 1 ''root'' (Fin 200)),
      (11, Op_adjust 3 ''alice'' (Fin (- 1000)) ''correction''),
      (12, Op_level_up 1 (Fin 2)),
      (13, Op_buy_feature 3 ''chat''),
      (14, Op_award 2 ''FIRST_LOGIN'')]"


section \<open>Facts about the store and the awarder\<close>

lemmas award_unfold = awardAchievement_def User_findOneAndUpdate_def User_findById_def Let_def
  ACHIEVEMENTS_def js_get_def ACHIEVEMENTS_table_def has_code_def push_achievement_def save_def
  CoinTransaction_create_def reward_tx_def objectPrototypeKeys_def

lemma ACHIEVEMENTS_Own: "ACHIEVEMENTS c = Own d \<Longrightarrow> code d = c \<and> 0 < coinsReward d"
  by (auto simp: ACHIEVEMENTS_def js_get_def ACHIEVEMENTS_table_def split: if_splits option.splits)

lemma save_same: "User_findById i s = Some u \<Longrightarrow> save i u s = s"
  by (simp add: save_def update_triv User_findById_def)

lemma findById_save: "User_findById j (save i u s) = (if j = i then Some u else User_findById j s)"
  by (simp add: User_findById_def save_def update_conv')

lemma ledger_save: "ledger (save i u s) = ledger s"
  by (simp add: save_def)


lemma ledger_create: "ledger (CoinTransaction_create now t s) = ledger s @ [t\<lparr>createdAt := now\<rparr>]"
  by (simp add: CoinTransaction_create_def)




lemma coins_push: "coins (push_achievement e u) = coins u"
  by (simp add: push_achievement_def)

lemma award_held:
  assumes "ACHIEVEMENTS c = Own d" "User_findById i s = Some u" "has_code (Some c) u"
  shows "awardAchievement now i c s = (Some u, s)"
  using assms ACHIEVEMENTS_Own[OF assms(1)]
  by (simp add: awardAchievement_def User_findOneAndUpdate_def User_findById_def Let_def)

lemma award_coins:
  assumes "ACHIEVEMENTS c = Own d" "User_findById i s = Some u" "\<not> has_code (Some c) u"
    "\<not> isBannedFromCoins u"
    and "u' = push_achievement (granted_entry c d now) (u\<lparr>coins := coins u + coinsReward d\<rparr>)"
  shows "awardAchievement now i c s =
    (Some u', CoinTransaction_create now (reward_tx i u' (coinsReward d) (Some (title d))) (save i u' s))"
  using assms ACHIEVEMENTS_Own[OF assms(1)]
  by (simp add: awardAchievement_def User_findOneAndUpdate_def User_findById_def Let_def granted_entry_def)

lemma award_banned:
  assumes "ACHIEVEMENTS c = Own d" "User_findById i s = Some u" "\<not> has_code (Some c) u"
    "isBannedFromCoins u"
    and "u' = push_achievement (granted_entry c d now) u"
  shows "awardAchievement now i c s = (Some u', save i u' s)"
  using assms ACHIEVEMENTS_Own[OF assms(1)]
  by (simp add: awardAchievement_def User_findOneAndUpdate_def User_findById_def Let_def granted_entry_def)

lemma award_no_user:
  assumes "User_findById i s = None"
  shows "awardAchievement now i c s = (None, s)"
  using assms
  by (simp add: awardAchievement_def User_findOneAndUpdate_def User_findById_def Let_def split: js_prop.splits)



lemma awardAchievement_unknown_code:
  assumes "ACHIEVEMENTS_table c = None" and "c \<notin> set objectPrototypeKeys"
  shows "awardAchievement now i c s = (None, s)"
  using assms by (simp add: awardAchievement_def ACHIEVEMENTS_def js_get_def)

section \<open>Facts about the coin routes\<close>

lemma FEATURE_PRICES_cases:
  "FEATURE_PRICES key = (case FEATURE_PRICES_table key of Some p \<Rightarrow> Own p
      | None \<Rightarrow> if key \<in> set objectPrototypeKeys then Inherited else Undefined)"
  by (simp add: FEATURE_PRICES_def js_get_def)

lemma post_buy_feature_reject_same:
  "post_buy_feature i key now s = (Inl e, s') \<Longrightarrow> s' = s"
  by (auto simp: post_buy_feature_def loadUser_def Let_def
      split: option.splits js_prop.splits if_splits sum.splits)

lemma post_buy_feature_unknown:
  assumes "FEATURE_PRICES_table key = None"
  shows "\<exists>e. post_buy_feature i key now s = (Inl e, s)"
  using assms
  by (auto simp: post_buy_feature_def loadUser_def Let_def FEATURE_PRICES_cases
      split: option.splits js_prop.splits if_splits sum.splits)

lemma post_buy_feature_unlocked:
  assumes "User_findById i s = Some me" "unlocks me key = Some True"
  shows "\<exists>e. post_buy_feature i key now s = (Inl e, s)"
  using assms
  by (auto simp: post_buy_feature_def loadUser_def Let_def unlocked_def js_get_def
      split: option.splits js_prop.splits if_splits sum.splits)

lemma post_buy_feature_poor:
  assumes "User_findById i s = Some me" "FEATURE_PRICES_table key = Some cost" "coins me < cost"
  shows "\<exists>e. post_buy_feature i key now s = (Inl e, s)"
  using assms
  by (auto simp: post_buy_feature_def loadUser_def Let_def FEATURE_PRICES_cases
      split: option.splits js_prop.splits if_splits sum.splits)

lemma post_buy_feature_accept:
  assumes "User_findById i s = Some me" "FEATURE_PRICES_table key = Some cost"
    "\<not> isBannedFromCoins me" "\<not> unlocked me key" "cost \<le> coins me"
  shows "post_buy_feature i key now s =
     (Inr (coins me - cost, (unlocks me)(key \<mapsto> True)),
      s\<lparr>users := AList.update i (me\<lparr>coins := coins me - cost, unlocks := (unlocks me)(key \<mapsto> True)\<rparr>) (users s),
        ledger := ledger s @
          [\<lparr>tx_type = Feature_purchase, fromUserId = Some i, fromUsername = Some (username me),
            toUserId = None, toUsername = None, amount = cost,
            description = ''Feature purchase: '' @ key, createdAt = now\<rparr>]\<rparr>)"
  using assms
  by (simp add: post_buy_feature_def loadUser_def Let_def FEATURE_PRICES_cases save_def
      CoinTransaction_create_def feature_tx_def)

lemma post_adjust_ok:
  assumes "User_findById i s = Some me" "role me = ''admin''" "name \<noteq> []"
    "User_findOne_username (trim name) s = Some (tid, target)"
  shows "post_adjust ns i name (Fin d) reason now s =
     (Inr (username target, max 0 (coins target + d)),
      s\<lparr>users := AList.update tid (target\<lparr>coins := max 0 (coins target + d)\<rparr>) (users s),
        ledger := ledger s @
          [\<lparr>tx_type = Admin_adjust, fromUserId = Some i, fromUsername = Some (username me),
            toUserId = Some tid, toUsername = Some (username target), amount = \<bar>d\<bar>,
            description = ''Admin adjust ('' @ (if d \<ge> 0 then ''+'' else []) @ ns d @ '')'' @
               (if reason \<noteq> [] then em_dash @ take 200 reason else []),
            createdAt = now\<rparr>]\<rparr>)"
  using assms
  by (simp add: post_adjust_def loadUser_def Let_def save_def
      CoinTransaction_create_def adjust_tx_def adjust_description_def)

lemma isInteger_of_int [simp]: "isInteger (of_int l)"
  by (simp add: isInteger_def)




lemma post_level_up_reject_same:
  "post_level_up i lvl now s = (Inl e, s') \<Longrightarrow> s' = s"
  by (auto simp: post_level_up_def loadUser_def Let_def
      split: option.splits jsnum.splits if_splits)




section \<open>Facts about transfers and the tracker\<close>

lemma findOne_username_D:
  assumes "User_findOne_username n s = Some (tid, t)"
  shows "(tid, t) \<in> set (users s)" "username t = n"
  using assms by (auto simp: User_findOne_username_def find_Some_iff in_set_conv_nth)


lemma findById_in_set: "User_findById i s = Some u \<Longrightarrow> (i, u) \<in> set (users s)"
  by (simp add: User_findById_def map_of_SomeD)

lemma save_save [simp]: "save i u (save i v s) = save i u s"
  by (simp add: save_def)



lemma trim_idem: "trim (trim str) = trim str"
proof -
  define a where "a = dropWhile is_space str"
  define c where "c = dropWhile is_space (rev a)"
  have b: "trim str = rev c" by (simp add: trim_def a_def c_def)
  have c_hd: "c = [] \<or> \<not> is_space (hd c)"
    unfolding c_def using hd_dropWhile[of is_space "rev a"] by blast
  have a_hd: "a = [] \<or> \<not> is_space (hd a)"
    unfolding a_def using hd_dropWhile[of is_space str] by blast
  have d1: "dropWhile is_space (rev c) = rev c"
  proof (cases "c = []")
    case True then show ?thesis by simp
  next
    case False
    then have "rev a \<noteq> []" by (auto simp: c_def)
    then have an: "a \<noteq> []" by simp
    obtain p where p: "rev a = p @ c"
      unfolding c_def using takeWhile_dropWhile_id[of is_space "rev a"] by metis
    have "last c = last (rev a)" using False p by simp
    also have "\<dots> = hd a" using an by (simp add: last_rev)
    finally have "hd (rev c) = hd a" using False by (simp add: hd_rev)
    then have "\<not> is_space (hd (rev c))" using a_hd an by simp
    then show ?thesis using False by (simp add: dropWhile_eq_self_iff)
  qed
  have d2: "dropWhile is_space c = c"
    using c_hd by (auto simp: dropWhile_eq_self_iff)
  show ?thesis
    unfolding b by (simp add: trim_def d1 d2)
qed

lemma awardApOnce_state:
  "snd (awardApOnce i c ap s) =
     (case User_findById i s of None \<Rightarrow> s | Some u \<Rightarrow> save i (ap_once c ap u) s)"
  by (auto simp: awardApOnce_def Let_def ap_once_def addToSet_def User_findOneAndUpdate_def
      User_findById_def save_same split: option.splits)

lemma awardApOnce_awarded:
  "snd (fst (awardApOnce i c ap s)) =
     (\<exists>u. User_findById i s = Some u \<and> trim c \<noteq> [] \<and> 0 < ap
        \<and> trim c \<notin> set (awardedAchievements u))"
  by (auto simp: awardApOnce_def Let_def User_findOneAndUpdate_def User_findById_def
      split: option.splits)

lemma milestone_step_state:
  assumes "User_findById i s = Some u"
  shows "award_milestones i v (m # ms) s =
     award_milestones i v ms (save i (milestone_step v m u) s)"
  using assms
  by (auto simp: milestone_step_def awardApOnce_state trim_idem save_same ap_once_def
      split: jsnum.splits)

lemma award_milestones_state:
  assumes "User_findById i s = Some u"
  shows "award_milestones i v ms s = save i (fold (milestone_step v) ms u) s"
  using assms
proof (induction ms arbitrary: s u)
  case Nil
  then show ?case by (simp add: save_same)
next
  case (Cons m ms)
  have f: "User_findById i (save i (milestone_step v m u) s) = Some (milestone_step v m u)"
    by (simp add: findById_save)
  show ?case
    unfolding milestone_step_state[OF Cons.prems] Cons.IH[OF f] by simp
qed

lemma award_milestones_no_user:
  assumes "User_findById i s = None"
  shows "award_milestones i v ms s = s"
  using assms
  by (induction ms arbitrary: s) (auto simp: awardApOnce_state split: jsnum.splits)

lemma recordFeatureAction_state:
  assumes "d \<noteq> 0" "trim f \<noteq> []" "trim k \<noteq> []" "User_findById i s = Some u"
  shows "recordFeatureAction fm i f k (Fin d) s =
     (Some (trim k, stat_value u (trim k) + d),
      save i (fold (milestone_step (stat_value u (trim k) + d)) (fm (trim f) (trim k))
                (inc_stat (trim k) d u)) s)"
proof -
  have 1: "User_findOneAndUpdate i (\<lambda>u. True) (inc_stat (trim k) d) s =
      (Some (inc_stat (trim k) d u), save i (inc_stat (trim k) d u) s)"
    using assms(4) by (simp add: User_findOneAndUpdate_def User_findById_def)
  have 2: "(case stats (inc_stat (trim k) d u) (trim k) of None \<Rightarrow> 0 | Some x \<Rightarrow> x) =
      stat_value u (trim k) + d"
    by (simp add: inc_stat_def stat_value_def)
  have 3: "User_findById i (save i (inc_stat (trim k) d u) s) = Some (inc_stat (trim k) d u)"
    by (simp add: findById_save)
  show ?thesis
    using assms(1-3)
    by (simp add: recordFeatureAction_def Let_def 1 2 award_milestones_state[OF 3])
qed

lemma recordFeatureAction_no_user:
  assumes "User_findById i s = None"
  shows "snd (recordFeatureAction fm i f k delta s) = s"
  using assms
  by (auto simp: recordFeatureAction_def Let_def User_findOneAndUpdate_def User_findById_def
      award_milestones_no_user split: jsnum.splits)

lemma recordFeatureAction_noop:
  assumes "delta = Fin 0 \<or> delta = NaN \<or> delta = PosInf \<or> delta = NegInf \<or> trim f = [] \<or> trim k = []"
  shows "recordFeatureAction fm i f k delta s = (None, s)"
  using assms
  by (auto simp: recordFeatureAction_def Let_def split: jsnum.splits)

lemma coins_ap_once [simp]: "coins (ap_once c ap u) = coins u"
  by (simp add: ap_once_def)

lemma coins_milestone_step [simp]: "coins (milestone_step v m u) = coins u"
  by (simp add: milestone_step_def split: jsnum.splits)

lemma coins_fold_milestone_step [simp]: "coins (fold (milestone_step v) ms u) = coins u"
  by (induction ms arbitrary: u) simp_all

lemma coins_inc_stat [simp]: "coins (inc_stat k d u) = coins u"
  by (simp add: inc_stat_def)

lemma recordFeatureAction_frame:
  "snd (recordFeatureAction fm i f k delta s) = s
   \<or> (\<exists>u u'. User_findById i s = Some u \<and> coins u' = coins u
         \<and> snd (recordFeatureAction fm i f k delta s) = save i u' s)"
proof (cases "User_findById i s")
  case None
  then show ?thesis by (simp add: recordFeatureAction_no_user)
next
  case (Some u)
  show ?thesis
  proof (cases "\<exists>d. delta = Fin d \<and> d \<noteq> 0 \<and> trim f \<noteq> [] \<and> trim k \<noteq> []")
    case True
    then obtain d where "delta = Fin d" "d \<noteq> 0" "trim f \<noteq> []" "trim k \<noteq> []" by blast
    then have "snd (recordFeatureAction fm i f k delta s) =
        save i (fold (milestone_step (stat_value u (trim k) + d)) (fm (trim f) (trim k))
                  (inc_stat (trim k) d u)) s"
      using recordFeatureAction_state[of d f k i s u fm] Some by simp
    moreover have "coins (fold (milestone_step (stat_value u (trim k) + d)) (fm (trim f) (trim k))
                  (inc_stat (trim k) d u)) = coins u"
      by simp
    ultimately show ?thesis using Some by blast
  next
    case False
    then have "delta = Fin 0 \<or> delta = NaN \<or> delta = PosInf \<or> delta = NegInf \<or> trim f = [] \<or> trim k = []"
      by (cases delta) auto
    then show ?thesis by (simp add: recordFeatureAction_noop)
  qed
qed





lemmas chat_unfold = store_chat_def alice_def bob_def User_findById_def User_findOne_username_def
  trim_def is_space_def unlocked_def js_get_def dailyLimitsOK_def

lemma dailyLimitsOK_iff:
  "dailyLimitsOK i 20 2000 now s = LimitOk \<longleftrightarrow>
     length (filter (in_window i (now - 24 * 60 * 60 * 1000)) (ledger s)) < 20
     \<and> sum_list (map amount (filter (in_window i (now - 24 * 60 * 60 * 1000)) (ledger s))) < 2000"
  by (auto simp: dailyLimitsOK_def Let_def)

lemma post_transfer_reject_same:
  "post_transfer i toName amnt now s = (Inl e, s') \<Longrightarrow> s' = s"
  by (auto simp: post_transfer_def loadUser_def Let_def
      split: option.splits jsnum.splits if_splits limit_result.splits prod.splits)

lemma post_transfer_gated:
  assumes "post_transfer i toName amnt now s = (Inr r, s')" and "User_findById i s = Some me"
    and "role me \<noteq> ''admin''"
  shows "dailyLimitsOK i 20 2000 now s = LimitOk"
  using assms
  by (auto simp: post_transfer_def loadUser_def Let_def
      split: option.splits jsnum.splits if_splits limit_result.splits prod.splits)

lemma post_transfer_quota_exceeded:
  assumes "User_findById i s = Some me" and "role me \<noteq> ''admin''"
    and "\<not> isBannedFromCoins me" and "toName \<noteq> []" and "0 < amt"
    and "User_findOne_username (trim toName) s = Some (tid, target)"
    and "username target \<noteq> username me"
    and "dailyLimitsOK i 20 2000 now s = LimitExceeded reason"
  shows "post_transfer i toName (Fin amt) now s = (Inl (429, reason), s)"
  using assms by (simp add: post_transfer_def loadUser_def)

lemma post_transfer_admin_not_limited:
  assumes "User_findById i s = Some me" and "role me = ''admin''"
  shows "fst (post_transfer i toName amnt now s) \<noteq> Inl (429, reason)"
  using assms
  by (auto simp: post_transfer_def loadUser_def Let_def
      split: option.splits jsnum.splits if_splits prod.splits)

section \<open>Facts about non-negative balances\<close>

lemma list_all_update:
  "list_all P al \<Longrightarrow> P (k, v) \<Longrightarrow> list_all P (AList.update k v al)"
  by (induction al) auto

lemma nonneg_save:
  "balances_nonneg s \<Longrightarrow> 0 \<le> coins u \<Longrightarrow> balances_nonneg (save i u s)"
  by (simp add: balances_nonneg_def save_def list_all_update)

lemma nonneg_create [simp]:
  "balances_nonneg (CoinTransaction_create now t s) = balances_nonneg s"
  by (simp add: balances_nonneg_def CoinTransaction_create_def)

lemma nonneg_findById:
  "balances_nonneg s \<Longrightarrow> User_findById i s = Some u \<Longrightarrow> 0 \<le> coins u"
  using findById_in_set[of i s u] by (auto simp: balances_nonneg_def list_all_iff)

lemma nonneg_findOne:
  "balances_nonneg s \<Longrightarrow> User_findOne_username n s = Some (tid, t) \<Longrightarrow> 0 \<le> coins t"
  using findOne_username_D(1)[of n s tid t] by (auto simp: balances_nonneg_def list_all_iff)

lemma def_reward_nonneg: "0 \<le> def_reward (ACHIEVEMENTS c)"
  by (auto simp: ACHIEVEMENTS_def js_get_def ACHIEVEMENTS_table_def)

lemma nonneg_map_of:
  "balances_nonneg s \<Longrightarrow> map_of (users s) i = Some u \<Longrightarrow> 0 \<le> coins u"
  using nonneg_findById[of s i u] by (simp add: User_findById_def)

lemma nonneg_award:
  assumes "balances_nonneg s"
  shows "balances_nonneg (snd (awardAchievement now i c s))"
  using assms def_reward_nonneg[of c]
  by (cases "ACHIEVEMENTS c")
     (auto simp: awardAchievement_def Let_def User_findOneAndUpdate_def User_findById_def
        coins_push
        split: option.splits if_splits prod.splits intro!: nonneg_save dest: nonneg_map_of)

lemma nonneg_move_coins:
  assumes "balances_nonneg s" "0 \<le> coins me" "0 \<le> coins target" "0 < amt" "amt \<le> coins me"
  shows "balances_nonneg (snd (move_coins i me tid target amt descr now s))"
  using assms by (simp add: move_coins_def Let_def nonneg_save)

lemma nonneg_recordFeatureAction:
  assumes "balances_nonneg s"
  shows "balances_nonneg (snd (recordFeatureAction fm i f k delta s))"
proof -
  from recordFeatureAction_frame[of fm i f k delta s]
  consider "snd (recordFeatureAction fm i f k delta s) = s"
    | u u' where "User_findById i s = Some u" "coins u' = coins u"
        "snd (recordFeatureAction fm i f k delta s) = save i u' s"
    by blast
  then show ?thesis
  proof cases
    case 1
    then show ?thesis using assms by simp
  next
    case 2
    then have "0 \<le> coins u'" using nonneg_findById[OF assms 2(1)] by simp
    then show ?thesis using 2(3) assms by (simp add: nonneg_save)
  qed
qed

lemma nonneg_post_transfer:
  assumes "balances_nonneg s"
  shows "balances_nonneg (snd (post_transfer i toName amnt now s))"
proof (cases "fst (post_transfer i toName amnt now s)")
  case (Inl e)
  then show ?thesis
    using post_transfer_reject_same[of i toName amnt now s e] assms
    by (cases "post_transfer i toName amnt now s") simp
next
  case (Inr r)
  then obtain s' where r: "post_transfer i toName amnt now s = (Inr r, s')"
    by (cases "post_transfer i toName amnt now s") simp
  then obtain me amt tid target where
    me: "User_findById i s = Some me" and "amnt = Fin amt" and pos: "0 < amt"
    and tg: "User_findOne_username (trim toName) s = Some (tid, target)"
    and suf: "amt \<le> coins me"
    and s': "s' = snd (move_coins i me tid target amt ''User transfer'' now s)"
    by (auto simp: post_transfer_def loadUser_def not_less
        split: option.splits jsnum.splits if_splits limit_result.splits prod.splits)
  show ?thesis
    using r s' nonneg_move_coins[OF assms nonneg_findById[OF assms me]
        nonneg_findOne[OF assms tg] pos suf]
    by simp
qed

lemma nonneg_dm_coins:
  assumes "balances_nonneg s" "User_findById i s = Some me"
    "User_findOne_username n s = Some (tid, target)"
    "dm_coins i me tid target cns now s = Inr (me', s1)"
  shows "balances_nonneg s1"
proof -
  from assms(4) consider "s1 = s"
    | amt where "0 < amt" "amt \<le> coins me"
        "s1 = snd (move_coins i me tid target amt ''DM transfer'' now s)"
    by (auto simp: dm_coins_def not_less split: jsnum.splits if_splits prod.splits)
  then show ?thesis
  proof cases
    case 1
    then show ?thesis using assms(1) by simp
  next
    case 2
    then show ?thesis
      using nonneg_move_coins[OF assms(1) nonneg_findById[OF assms(1,2)]
          nonneg_findOne[OF assms(1,3)] 2(1,2)]
      by simp
  qed
qed

lemma nonneg_post_dm_send:
  assumes "balances_nonneg s"
  shows "balances_nonneg (snd (post_dm_send fm i toName img cns now s))"
  using assms
  by (auto simp: post_dm_send_def loadUser_def Let_def nonneg_recordFeatureAction
      split: option.splits sum.splits if_splits prod.splits
      dest: nonneg_dm_coins)

lemma nonneg_post_buy_feature:
  assumes "balances_nonneg s"
  shows "balances_nonneg (snd (post_buy_feature i key now s))"
  using assms
  by (auto simp: post_buy_feature_def loadUser_def Let_def not_less
      split: option.splits js_prop.splits if_splits intro!: nonneg_save)

lemma nonneg_post_adjust:
  assumes "balances_nonneg s"
  shows "balances_nonneg (snd (post_adjust ns i name delta reason now s))"
  using assms
  by (auto simp: post_adjust_def loadUser_def Let_def
      split: option.splits jsnum.splits if_splits intro!: nonneg_save)

lemma nonneg_post_level_up:
  assumes "balances_nonneg s"
  shows "balances_nonneg (snd (post_level_up i lvl now s))"
  using assms
  by (auto simp: post_level_up_def loadUser_def Let_def not_less
      split: option.splits jsnum.splits if_splits
      intro!: nonneg_save nonneg_award dest: nonneg_findById
      simp: nonneg_findById)

lemma nonneg_apply_op:
  "balances_nonneg s \<Longrightarrow> balances_nonneg (apply_op fm ns now x s)"
  by (cases x)
     (simp_all add: nonneg_post_transfer nonneg_post_dm_send nonneg_post_buy_feature
        nonneg_post_level_up nonneg_post_adjust nonneg_award)

lemma nonneg_run:
  "balances_nonneg s \<Longrightarrow> balances_nonneg (run fm ns ops s)"
  by (induction ops arbitrary: s) (auto simp: nonneg_apply_op)

section \<open>Facts about milestone accounting\<close>












lemma stats_milestone_step [simp]: "stats (milestone_step v m u) = stats u"
  by (simp add: milestone_step_def ap_once_def split: jsnum.splits)

lemma stats_fold_milestone_step [simp]: "stats (fold (milestone_step v) ms u) = stats u"
  by (induction ms arbitrary: u) simp_all






section \<open>At-most-once grant\<close>




section \<open>Ban suppression in the awarder\<close>

text \<open>
  Claim C6. For a catalog code, an account whose coins-ban flag is set and that does
  not hold the code gets the code appended to its achievements, keeps its balance, and
  no ledger entry is appended. In general the ledger grows by exactly one entry of type
  \<open>achievement_reward\<close>, with the catalog reward as amount, if and only if the
  coin-granting update matched (the account exists, does not hold the code and is not
  coin-banned) and the catalog reward is positive; otherwise the ledger is unchanged.
\<close>

theorem awardAchievement_ban_suppression:
  assumes cat: "ACHIEVEMENTS c = Own d"
  shows "(User_findById i s = Some u \<and> isBannedFromCoins u \<and> \<not> has_code (Some c) u \<longrightarrow>
            (\<exists>u'. awardAchievement now i c s = (Some u', save i u' s)
               \<and> User_findById i (save i u' s) = Some u'
               \<and> achievements u' = achievements u @ [granted_entry c d now]
               \<and> coins u' = coins u
               \<and> ledger (save i u' s) = ledger s))
       \<and> ledger (snd (awardAchievement now i c s)) =
           (case User_findById i s of
              None \<Rightarrow> ledger s
            | Some v \<Rightarrow>
                if \<not> has_code (Some c) v \<and> \<not> isBannedFromCoins v \<and> 0 < coinsReward d
                then ledger s @
                  [\<lparr>tx_type = Achievement_reward, fromUserId = None, fromUsername = None,
                    toUserId = Some i, toUsername = Some (username v), amount = coinsReward d,
                    description = ''Achievement: '' @ title d, createdAt = now\<rparr>]
                else ledger s)"
proof (intro conjI impI)
  assume a: "User_findById i s = Some u \<and> isBannedFromCoins u \<and> \<not> has_code (Some c) u"
  define u' where "u' = push_achievement (granted_entry c d now) u"
  have "awardAchievement now i c s = (Some u', save i u' s)"
    using award_banned[OF cat _ _ _ u'_def] a by blast
  then show "\<exists>u'. awardAchievement now i c s = (Some u', save i u' s)
               \<and> User_findById i (save i u' s) = Some u'
               \<and> achievements u' = achievements u @ [granted_entry c d now]
               \<and> coins u' = coins u
               \<and> ledger (save i u' s) = ledger s"
    by (simp add: u'_def push_achievement_def findById_save ledger_save)
next
  show "ledger (snd (awardAchievement now i c s)) =
           (case User_findById i s of
              None \<Rightarrow> ledger s
            | Some v \<Rightarrow>
                if \<not> has_code (Some c) v \<and> \<not> isBannedFromCoins v \<and> 0 < coinsReward d
                then ledger s @
                  [\<lparr>tx_type = Achievement_reward, fromUserId = None, fromUsername = None,
                    toUserId = Some i, toUsername = Some (username v), amount = coinsReward d,
                    description = ''Achievement: '' @ title d, createdAt = now\<rparr>]
                else ledger s)"
  proof (cases "User_findById i s")
    case None
    then show ?thesis by (simp add: award_no_user)
  next
    case (Some v)
    note pos = ACHIEVEMENTS_Own[OF cat]
    show ?thesis
    proof (cases "has_code (Some c) v")
      case True
      then show ?thesis using Some by (simp add: award_held[OF cat Some True])
    next
      case False
      show ?thesis
      proof (cases "isBannedFromCoins v")
        case True
        show ?thesis using Some False True
          by (simp add: award_banned[OF cat Some False True refl] ledger_save)
      next
        case nb: False
        show ?thesis using Some False nb pos
          by (simp add: award_coins[OF cat Some False nb refl] ledger_save ledger_create
                reward_tx_def push_achievement_def)
      qed
    qed
  qed
qed

theorem awardAchievement_ban_suppression_witness:
  "ACHIEVEMENTS ''FIRST_BUG_REPORT'' =
      Own \<lparr>code = ''FIRST_BUG_REPORT'', title = ''First Bug Report'', coinsReward = 25\<rparr>
   \<and> User_findById 2 store1 = Some bob \<and> isBannedFromCoins bob
   \<and> \<not> has_code (Some ''FIRST_BUG_REPORT'') bob
   \<and> (\<exists>u'. fst (awardAchievement 9 2 ''FIRST_BUG_REPORT'' store1) = Some u'
          \<and> achievements u' =
              [\<lparr>a_code = Some ''FIRST_BUG_REPORT'', a_title = Some ''First Bug Report'', earnedAt = 9\<rparr>]
          \<and> coins u' = 40)
   \<and> ledger (snd (awardAchievement 9 2 ''FIRST_BUG_REPORT'' store1)) = []"
proof -
  have cat: "ACHIEVEMENTS ''FIRST_BUG_REPORT'' =
      Own \<lparr>code = ''FIRST_BUG_REPORT'', title = ''First Bug Report'', coinsReward = 25\<rparr>"
    by (simp add: ACHIEVEMENTS_def js_get_def ACHIEVEMENTS_table_def)
  have usr: "User_findById 2 store1 = Some bob"
    by (simp add: User_findById_def store1_def)
  have ban: "isBannedFromCoins bob" and nh: "\<not> has_code (Some ''FIRST_BUG_REPORT'') bob"
    and c: "coins bob = 40" "achievements bob = []" "ledger store1 = []"
    by (simp_all add: bob_def has_code_def store1_def)
  from awardAchievement_ban_suppression[OF cat, of 2 store1 bob 9] usr ban nh c cat
  show ?thesis by (auto simp: granted_entry_def)
qed

section \<open>Codes outside the catalog\<close>

text \<open>
  Claim C10 holds for a code that is neither an entry of the catalog nor the name of a
  member inherited from \<open>Object.prototype\<close> (lemma \<open>awardAchievement_unknown_code\<close>). For
  an inherited name such as \<open>constructor\<close> the lookup \<open>ACHIEVEMENTS[code]\<close> is truthy, the
  guard \<open>if (!def) return null\<close> does not fire, the function goes on to the store and, for
  an existing account, returns the account document instead of null.
\<close>

theorem awardAchievement_inherited_key_not_null:
  "ACHIEVEMENTS ''constructor'' = Inherited
   \<and> User_findById 1 store0 = Some alice
   \<and> fst (awardAchievement 1 1 ''constructor'' store0) \<noteq> None"
  by (simp add: award_unfold store0_def alice_def)

section \<open>Feature purchase\<close>

text \<open>
  Claim C9. \<open>POST /buy-feature\<close> with a key that is no entry of the price table, with a
  feature whose unlock flag is already set, or with a balance below the catalog price
  answers with an error and leaves the store as it was: no account is changed and no
  ledger entry is written (every error answer leaves the store unchanged). When the key
  is priced, the account is not coin-banned, the feature is not unlocked and the balance
  covers the price, one save deducts exactly the price and sets the unlock flag, and
  one \<open>feature_purchase\<close> entry with the price as amount is appended to the ledger.
\<close>

theorem post_buy_feature_rejection_atomicity:
  "(FEATURE_PRICES_table key = None \<longrightarrow> (\<exists>e. post_buy_feature i key now s = (Inl e, s)))
   \<and> (User_findById i s = Some me \<and> unlocks me key = Some True \<longrightarrow>
        (\<exists>e. post_buy_feature i key now s = (Inl e, s)))
   \<and> (User_findById i s = Some me \<and> FEATURE_PRICES_table key = Some cost \<and> coins me < cost \<longrightarrow>
        (\<exists>e. post_buy_feature i key now s = (Inl e, s)))
   \<and> (\<forall>e s'. post_buy_feature i key now s = (Inl e, s') \<longrightarrow> s' = s)
   \<and> (User_findById i s = Some me \<and> FEATURE_PRICES_table key = Some cost
        \<and> \<not> isBannedFromCoins me \<and> \<not> unlocked me key \<and> cost \<le> coins me \<longrightarrow>
        post_buy_feature i key now s =
          (Inr (coins me - cost, (unlocks me)(key \<mapsto> True)),
           s\<lparr>users := AList.update i
                 (me\<lparr>coins := coins me - cost, unlocks := (unlocks me)(key \<mapsto> True)\<rparr>) (users s),
             ledger := ledger s @
               [\<lparr>tx_type = Feature_purchase, fromUserId = Some i,
                 fromUsername = Some (username me), toUserId = None, toUsername = None,
                 amount = cost, description = ''Feature purchase: '' @ key,
                 createdAt = now\<rparr>]\<rparr>))"
  using post_buy_feature_unknown[of key i now s] post_buy_feature_unlocked[of i s me key now]
    post_buy_feature_poor[of i s me key cost now] post_buy_feature_reject_same[of i key now s]
    post_buy_feature_accept[of i s me key cost now]
  by blast

theorem post_buy_feature_rejection_atomicity_witness:
  "User_findById 1 store_poor = Some alice_poor \<and> FEATURE_PRICES_table ''chat'' = Some 100
   \<and> coins alice_poor < 100
   \<and> (\<exists>e. post_buy_feature 1 ''chat'' 5 store_poor = (Inl e, store_poor))
   \<and> User_findById 1 store0 = Some alice \<and> \<not> isBannedFromCoins alice
   \<and> \<not> unlocked alice ''chat'' \<and> (100::rat) \<le> coins alice
   \<and> fst (post_buy_feature 1 ''chat'' 5 store0) = Inr (400, [''chat'' \<mapsto> True])
   \<and> map (\<lambda>t. (tx_type t, amount t)) (ledger (snd (post_buy_feature 1 ''chat'' 5 store0))) =
        [(Feature_purchase, 100)]"
proof -
  have p: "User_findById 1 store_poor = Some alice_poor" "FEATURE_PRICES_table ''chat'' = Some 100"
    "coins alice_poor < 100"
    by (simp_all add: User_findById_def store_poor_def alice_poor_def alice_def
          FEATURE_PRICES_table_def)
  have a: "User_findById 1 store0 = Some alice" "\<not> isBannedFromCoins alice"
    "\<not> unlocked alice ''chat''" "(100::rat) \<le> coins alice" "coins alice - 100 = 400"
    "unlocks alice = Map.empty" "ledger store0 = []"
    by (simp_all add: User_findById_def store0_def alice_def unlocked_def js_get_def
          objectPrototypeKeys_def)
  from post_buy_feature_rejection_atomicity[of "''chat''" 1 5 store_poor alice_poor 100] p
  have 1: "\<exists>e. post_buy_feature 1 ''chat'' 5 store_poor = (Inl e, store_poor)" by blast
  from post_buy_feature_rejection_atomicity[of "''chat''" 1 5 store0 alice 100] p(2) a
  have 2: "fst (post_buy_feature 1 ''chat'' 5 store0) = Inr (400, [''chat'' \<mapsto> True])"
    "map (\<lambda>t. (tx_type t, amount t)) (ledger (snd (post_buy_feature 1 ''chat'' 5 store0))) =
        [(Feature_purchase, 100)]"
    by simp_all
  from p a 1 2 show ?thesis by blast
qed

section \<open>Admin adjustment\<close>



section \<open>Level-up\<close>



section \<open>Transfers to a coin-banned recipient\<close>



section \<open>Rate window\<close>

text \<open>
  Claim C3 holds on \<open>POST /transfer\<close>: a non-admin transfer is executed only when the
  sender's transfers of the trailing 24 hours number fewer than 20 and sum to less than
  2000, a request that reaches the gate beyond a limit is answered 429 with the store
  unchanged, and an admin is never answered 429 (lemmas \<open>dailyLimitsOK_iff\<close>,
  \<open>post_transfer_gated\<close>, \<open>post_transfer_quota_exceeded\<close>,
  \<open>post_transfer_admin_not_limited\<close>). The coin transfer inside \<open>POST /send\<close> of the DM
  router never consults the rate window. With 20 transfers of the last 24 hours already
  in the ledger, a 21st transfer by the same non-admin sender is answered 429 by
  \<open>POST /transfer\<close> and is executed by \<open>POST /send\<close>: the sender is debited and a 21st
  ledger entry of type \<open>transfer\<close> is written.
\<close>

theorem dm_send_bypasses_rate_window:
  "role (alice\<lparr>unlocks := [''chat'' \<mapsto> True]\<rparr>) \<noteq> ''admin''
   \<and> User_findById 1 store_busy = Some (alice\<lparr>unlocks := [''chat'' \<mapsto> True]\<rparr>)
   \<and> length (filter (in_window 1 (200 - 24 * 60 * 60 * 1000)) (ledger store_busy)) = 20
   \<and> dailyLimitsOK 1 20 2000 200 store_busy = LimitExceeded ''Daily transfer count limit reached''
   \<and> post_transfer 1 ''bob'' (Fin 5) 200 store_busy =
        (Inl (429, ''Daily transfer count limit reached''), store_busy)
   \<and> fst (post_dm_send demo_milestones 1 ''bob'' [] (Fin 5) 200 store_busy) = Inr 495
   \<and> map_option coins
        (User_findById 1 (snd (post_dm_send demo_milestones 1 ''bob'' [] (Fin 5) 200 store_busy))) =
        Some 495
   \<and> ledger (snd (post_dm_send demo_milestones 1 ''bob'' [] (Fin 5) 200 store_busy)) =
        replicate 20 old_transfer @
          [\<lparr>tx_type = Transfer, fromUserId = Some 1, fromUsername = Some ''alice'',
            toUserId = Some 2, toUsername = Some ''bob'', amount = 5,
            description = ''DM transfer'', createdAt = 200\<rparr>]"
  by (simp add: store_busy_def chat_unfold in_window_def old_transfer_def post_transfer_def
      loadUser_def post_dm_send_def dm_coins_def move_coins_def Let_def save_def
      CoinTransaction_create_def transfer_tx_def recordFeatureAction_def
      User_findOneAndUpdate_def inc_stat_def demo_milestones_def update_conv'
      objectPrototypeKeys_def)

section \<open>Non-negative balances\<close>

text \<open>
  Claim C2. Starting from a store in which no balance is negative, after every prefix
  of every sequence of operations (transfer by either route, feature purchase, level-up,
  admin adjustment, achievement grant), applied one after the other, every account's
  balance is greater than or equal to 0. An admin adjustment by a delta more negative
  than the target's balance stores the balance 0 exactly.
\<close>

theorem balances_never_negative:
  assumes "balances_nonneg s"
  shows "(\<forall>n. balances_nonneg (run fm ns (take n ops) s))
       \<and> (\<forall>n j u. User_findById j (run fm ns (take n ops) s) = Some u \<longrightarrow> 0 \<le> coins u)
       \<and> (User_findById i s = Some me \<and> role me = ''admin'' \<and> name \<noteq> []
            \<and> User_findOne_username (trim name) s = Some (tid, target)
            \<and> d < - coins target \<longrightarrow>
          User_findById tid (snd (post_adjust ns i name (Fin d) reason now s)) =
            Some (target\<lparr>coins := 0\<rparr>))"
proof (intro conjI allI impI)
  fix n
  show "balances_nonneg (run fm ns (take n ops) s)"
    using assms by (rule nonneg_run)
next
  fix n j u
  assume "User_findById j (run fm ns (take n ops) s) = Some u"
  then show "0 \<le> coins u"
    using nonneg_findById[OF nonneg_run[OF assms]] by blast
next
  assume h: "User_findById i s = Some me \<and> role me = ''admin'' \<and> name \<noteq> []
            \<and> User_findOne_username (trim name) s = Some (tid, target)
            \<and> d < - coins target"
  then have "max 0 (coins target + d) = 0" by simp
  then show "User_findById tid (snd (post_adjust ns i name (Fin d) reason now s)) =
            Some (target\<lparr>coins := 0\<rparr>)"
    using post_adjust_ok[of i s me name tid target ns d reason now] h
    by (simp add: User_findById_def update_conv')
qed

theorem balances_never_negative_witness:
  "balances_nonneg store2
   \<and> balances_nonneg (run demo_milestones (\<lambda>x. show_int \<lfloor>x\<rfloor>) demo_ops store2)
   \<and> User_findById 3 store2 = Some root \<and> role root = ''admin''
   \<and> User_findOne_username (trim ''alice'') store2 = Some (1, alice)
   \<and> (- 1000 :: rat) < - coins alice
   \<and> User_findById 1 (snd (post_adjust (\<lambda>x. show_int \<lfloor>x\<rfloor>) 3 ''alice'' (Fin (- 1000))
                              ''correction'' 11 store2)) = Some (alice\<lparr>coins := 0\<rparr>)"
proof -
  have h: "balances_nonneg store2"
    by (simp add: balances_nonneg_def store2_def alice_def bob_def root_def)
  have g: "User_findById 3 store2 = Some root" "role root = ''admin''" "''alice'' \<noteq> []"
    "User_findOne_username (trim ''alice'') store2 = Some (1, alice)"
    "(- 1000 :: rat) < - coins alice"
    by (simp_all add: User_findById_def store2_def root_def User_findOne_username_def
          trim_def is_space_def alice_def bob_def)
  have t: "take 5 demo_ops = demo_ops" by (simp add: demo_ops_def)
  from balances_never_negative[OF h, of demo_milestones "\<lambda>x. show_int \<lfloor>x\<rfloor>" demo_ops
      3 root "''alice''" 1 alice "- 1000" "''correction''" 11]
  have "balances_nonneg (run demo_milestones (\<lambda>x. show_int \<lfloor>x\<rfloor>) (take 5 demo_ops) store2)"
    and "User_findById 1 (snd (post_adjust (\<lambda>x. show_int \<lfloor>x\<rfloor>) 3 ''alice'' (Fin (- 1000))
                              ''correction'' 11 store2)) = Some (alice\<lparr>coins := 0\<rparr>)"
    using g by blast+
  then show ?thesis using h g t by simp
qed

section \<open>Milestone awarding\<close>



end
